theory Spec2Isabelle
  imports Main "HOL-Library.Word"
begin

text \<open>
  The license server: key generation and signing (\<open>utils/crypto\<close>), the store
  (\<open>LicenseDatabase\<close>) and the routes generate, activate, validate and revoke
  (\<open>routes/licenses\<close>).

  The server loads the PostgreSQL store (\<open>models/database-pg\<close>), whose operations
  are \<open>async\<close> and return promises, and the copy of the routes that awaits them in
  activate and validate; the repository also keeps an older synchronous SQLite store and
  a copy of the routes without \<open>await\<close>, with the same statements and the same checks
  in the same order. The model is of the pair the server loads.

  A handler is a function from the request and the store to the response and the store
  afterwards. In activate and validate every store call is awaited: it has finished
  before the next statement runs. In generate and revoke no store call is awaited: the
  handler starts its calls in order and answers at once, a rejected promise reaches no
  \<open>catch\<close>, and the store afterwards is the store once the started calls have been
  carried out.
\<close>

section \<open>Data model\<close>

text \<open>
  Instants are milliseconds since the epoch: the value \<open>new Date(x).getTime()\<close> of the
  ISO-8601 strings the server stores and returns. The handlers only compare instants
  and add a fixed number of milliseconds to them.
\<close>

type_synonym timestamp = int

text \<open>
  A row of table \<open>licenses\<close>. The columns \<open>id\<close> and \<open>created_at\<close> are assigned by
  the store and read by none of the operations below; \<open>updated_at\<close> is \<open>None\<close> until
  an operation writes it (the store's own default at insertion is not modelled).
\<close>

record license =
  license_key :: string
  device_id_hash :: "string option"
  kiosk_name :: string
  location_restaurant :: "string option"
  location_country :: "string option"
  location_region :: "string option"
  status :: string
  issued_at :: timestamp
  expires_at :: timestamp
  activated_at :: "timestamp option"
  last_validated_at :: "timestamp option"
  revoked_at :: "timestamp option"
  revoke_reason :: "string option"
  updated_at :: "timestamp option"

text \<open>A row of table \<open>validation_logs\<close> (the audit log of activation and validation attempts).\<close>

record validation_log =
  vl_license_key :: string
  vl_device_id_hash :: string
  validation_type :: string
  success :: bool
  error_message :: "string option"
  ip_address :: "string option"
  user_agent :: "string option"

text \<open>A row of table \<open>activity_logs\<close> (operator actions).\<close>

record activity_log =
  al_user_id :: "int option"
  al_action :: string
  al_resource_type :: "string option"
  al_resource_id :: "string option"
  al_details :: "string option"
  al_ip_address :: "string option"

text \<open>The store: the three tables the license routes touch, in insertion order.\<close>

record db =
  licenses :: "license list"
  validation_logs :: "validation_log list"
  activity_logs :: "activity_log list"

text \<open>
  JSON values as the handlers build them. \<open>JDate t\<close> is the ISO-8601 string of the
  instant \<open>t\<close>; an object keeps its properties in insertion order.
\<close>

datatype json =
  JNull
| JBool bool
| JStr string
| JDate timestamp
| JObj "(string \<times> json) list"

datatype response = Response nat json

text \<open>
  Errors: thrown in a handler body, where the route catches them and answers 500, or
  carried by a rejected promise of the store.
\<close>

datatype js_error =
  ReferenceError string
| RangeError
| UniqueViolation string

text \<open>
  What the handlers take from the Node runtime and from module state: the SHA-256 hex
  digest, \<open>JSON.stringify\<close>, the RSA-SHA256 signature in base64 (key first), the
  calendar year of an instant in the server's time zone, and the private key loaded by
  \<open>loadKeys\<close> when the module is loaded.
\<close>

record runtime =
  sha256_hex :: "string \<Rightarrow> string"
  json_stringify :: "json \<Rightarrow> string"
  rsa_sha256_sign :: "string \<Rightarrow> string \<Rightarrow> string"
  getFullYear :: "timestamp \<Rightarrow> nat"
  privateKey :: string

text \<open>
  The clock: \<open>clk n\<close> is the \<open>n\<close>-th reading (\<open>new Date()\<close>, \<open>Date.now()\<close>) made
  while one request is served, counted from 0 in the order the source makes them on the
  path taken. The readings made only for the console output of a handler are not
  counted.
\<close>

type_synonym clock = "nat \<Rightarrow> timestamp"

section \<open>JavaScript truthiness of optional strings\<close>

definition falsy :: "string option \<Rightarrow> bool" where
  "falsy v = (case v of None \<Rightarrow> True | Some s \<Rightarrow> s = [])"

text \<open>\<open>v || null\<close>\<close>

definition or_null :: "string option \<Rightarrow> string option" where
  "or_null v = (if falsy v then None else v)"

definition jopt :: "string option \<Rightarrow> json" where
  "jopt v = (case v of None \<Rightarrow> JNull | Some s \<Rightarrow> JStr s)"

definition jdate_opt :: "timestamp option \<Rightarrow> json" where
  "jdate_opt v = (case v of None \<Rightarrow> JNull | Some t \<Rightarrow> JDate t)"

section \<open>utils/crypto\<close>

definition hashDeviceId :: "runtime \<Rightarrow> string \<Rightarrow> string" where
  "hashDeviceId L deviceId = sha256_hex L deviceId"

definition signLicense :: "runtime \<Rightarrow> json \<Rightarrow> string \<Rightarrow> string" where
  "signLicense L licenseData key = rsa_sha256_sign L key (json_stringify L licenseData)"

section \<open>LicenseDatabase\<close>

definition getLicenseByKey :: "db \<Rightarrow> string \<Rightarrow> license option" where
  "getLicenseByKey d licenseKey = find (\<lambda>r. license_key r = licenseKey) (licenses d)"

text \<open>
  \<open>UPDATE licenses SET device_id_hash, status = 'active', activated_at,
  last_validated_at, updated_at WHERE license_key = $5\<close>: every row with the key is
  written, whatever its status.
\<close>

definition activateLicense :: "db \<Rightarrow> string \<Rightarrow> string \<Rightarrow> timestamp \<Rightarrow> db" where
  "activateLicense d licenseKey deviceIdHash now =
     d\<lparr>licenses := map (\<lambda>r. if license_key r = licenseKey
         then r\<lparr>device_id_hash := Some deviceIdHash, status := ''active'',
                activated_at := Some now, last_validated_at := Some now,
                updated_at := Some now\<rparr>
         else r) (licenses d)\<rparr>"

definition updateValidation :: "db \<Rightarrow> string \<Rightarrow> timestamp \<Rightarrow> db" where
  "updateValidation d licenseKey now =
     d\<lparr>licenses := map (\<lambda>r. if license_key r = licenseKey
         then r\<lparr>last_validated_at := Some now, updated_at := Some now\<rparr>
         else r) (licenses d)\<rparr>"

definition revokeLicense :: "db \<Rightarrow> string \<Rightarrow> string \<Rightarrow> timestamp \<Rightarrow> db" where
  "revokeLicense d licenseKey reason now =
     d\<lparr>licenses := map (\<lambda>r. if license_key r = licenseKey
         then r\<lparr>status := ''revoked'', revoked_at := Some now,
                revoke_reason := Some reason, updated_at := Some now\<rparr>
         else r) (licenses d)\<rparr>"

definition logValidation :: "db \<Rightarrow> validation_log \<Rightarrow> db" where
  "logValidation d logData =
     d\<lparr>validation_logs := validation_logs d @
        [logData\<lparr>error_message := or_null (error_message logData),
                 ip_address := or_null (ip_address logData),
                 user_agent := or_null (user_agent logData)\<rparr>]\<rparr>"

text \<open>
  \<open>activityData.userId || null\<close>: the number 0 is falsy. The user id of a request
  that passed \<open>authenticateToken\<close> is taken to name a row of \<open>admin_users\<close>, so that
  the insert into \<open>activity_logs\<close> is accepted.
\<close>

definition user_or_null :: "int option \<Rightarrow> int option" where
  "user_or_null u = (case u of None \<Rightarrow> None | Some n \<Rightarrow> if n = 0 then None else Some n)"

definition logActivity :: "db \<Rightarrow> activity_log \<Rightarrow> db" where
  "logActivity d activityData =
     d\<lparr>activity_logs := activity_logs d @
        [activityData\<lparr>al_user_id := user_or_null (al_user_id activityData),
                      al_resource_type := or_null (al_resource_type activityData),
                      al_resource_id := or_null (al_resource_id activityData),
                      al_details := or_null (al_details activityData),
                      al_ip_address := or_null (al_ip_address activityData)\<rparr>]\<rparr>"

section \<open>routes/licenses: activate\<close>

text \<open>The body and headers of an activate or validate request.\<close>

record request =
  licenseKey :: "string option"
  deviceId :: "string option"
  ip :: "string option"
  userAgent :: "string option"

definition ninety_days :: int where
  "ninety_days = 90 * 24 * 60 * 60 * 1000"

definition error_body :: "string \<Rightarrow> json" where
  "error_body msg = JObj [(''error'', JStr msg)]"

definition activation_log :: "request \<Rightarrow> string \<Rightarrow> string \<Rightarrow> bool \<Rightarrow> string option \<Rightarrow> validation_log" where
  "activation_log req k h ok msg =
     \<lparr>vl_license_key = k, vl_device_id_hash = h, validation_type = ''activation'',
      success = ok, error_message = msg, ip_address = ip req, user_agent = userAgent req\<rparr>"

text \<open>The assertion of the branch "Same device, return existing license".\<close>

definition existing_licenseResponse :: "license \<Rightarrow> string \<Rightarrow> (string \<times> json) list" where
  "existing_licenseResponse l deviceHash =
     [(''licenseKey'', JStr (license_key l)),
      (''deviceId'', JStr deviceHash),
      (''kioskName'', JStr (kiosk_name l)),
      (''activatedAt'', jdate_opt (activated_at l)),
      (''expiresAt'', JDate (expires_at l)),
      (''lastValidated'', jdate_opt (last_validated_at l)),
      (''graceExpiresAt'',
         JDate ((case last_validated_at l of None \<Rightarrow> 0 | Some t \<Rightarrow> t) + ninety_days))]"

text \<open>The assertion built after \<open>db.activateLicense\<close>; it reads the clock three times.\<close>

definition new_licenseResponse :: "clock \<Rightarrow> license \<Rightarrow> string \<Rightarrow> (string \<times> json) list" where
  "new_licenseResponse clk l deviceHash =
     [(''licenseKey'', JStr (license_key l)),
      (''deviceId'', JStr deviceHash),
      (''kioskName'', JStr (kiosk_name l)),
      (''location'', JObj [(''restaurant'', jopt (location_restaurant l)),
                           (''country'', jopt (location_country l)),
                           (''region'', jopt (location_region l))]),
      (''activatedAt'', JDate (clk 2)),
      (''expiresAt'', JDate (expires_at l)),
      (''lastValidated'', JDate (clk 3)),
      (''graceExpiresAt'', JDate (clk 4 + ninety_days))]"

definition signed_body :: "runtime \<Rightarrow> (string \<times> json) list \<Rightarrow> json" where
  "signed_body L licenseResponse =
     JObj [(''success'', JBool True),
           (''license'', JObj (licenseResponse @
              [(''signature'', JStr (signLicense L (JObj licenseResponse) (privateKey L)))]))]"

text \<open>
  The handler from the point where \<open>db.getLicenseByKey\<close> has answered \<open>lic\<close>: the
  checks run on that answer, the writes go to the store as it is then.
\<close>

definition activate_found ::
  "runtime \<Rightarrow> clock \<Rightarrow> request \<Rightarrow> string \<Rightarrow> string \<Rightarrow> license option \<Rightarrow> db \<Rightarrow> response \<times> db" where
  "activate_found L clk req k dv lic d =
     (case lic of
        None \<Rightarrow>
          (Response 404 (JObj [(''error'', JStr ''License key not found''),
             (''hint'', JStr ''Please generate a license first using the admin portal'')]),
           logValidation d (activation_log req k (hashDeviceId L dv) False
              (Some ''License key not found'')))
      | Some l \<Rightarrow>
          if status l = ''active'' \<and> \<not> falsy (device_id_hash l) then
            (let deviceHash = hashDeviceId L dv in
             if device_id_hash l = Some deviceHash then
               (Response 200 (signed_body L (existing_licenseResponse l deviceHash)), d)
             else
               (Response 403 (error_body ''License already activated on another device''),
                logValidation d (activation_log req k deviceHash False
                   (Some ''License already activated on another device''))))
          else if status l = ''revoked'' then
            (Response 403 (JObj [(''error'', JStr ''License has been revoked''),
                                 (''reason'', jopt (revoke_reason l))]),
             logValidation d (activation_log req k (hashDeviceId L dv) False
                (Some ''License has been revoked'')))
          else if expires_at l < clk 0 then
            (Response 403 (error_body ''License has expired''),
             logValidation d (activation_log req k (hashDeviceId L dv) False
                (Some ''License has expired'')))
          else
            (let deviceHash = hashDeviceId L dv;
                 d1 = activateLicense d k deviceHash (clk 1);
                 licenseResponse = new_licenseResponse clk l deviceHash;
                 body = signed_body L licenseResponse;
                 d2 = logValidation d1 (activation_log req k deviceHash True None)
             in (Response 200 body, d2)))"

definition activate :: "runtime \<Rightarrow> clock \<Rightarrow> request \<Rightarrow> db \<Rightarrow> response \<times> db" where
  "activate L clk req d =
     (case (licenseKey req, deviceId req) of
        (Some k, Some dv) \<Rightarrow>
          if k = [] \<or> dv = [] then
            (Response 400 (error_body ''License key and device ID required''), d)
          else activate_found L clk req k dv (getLicenseByKey d k) d
      | _ \<Rightarrow> (Response 400 (error_body ''License key and device ID required''), d))"

section \<open>routes/licenses: validate\<close>

definition periodic_log :: "request \<Rightarrow> string \<Rightarrow> string \<Rightarrow> bool \<Rightarrow> string option \<Rightarrow> validation_log" where
  "periodic_log req k h ok msg =
     \<lparr>vl_license_key = k, vl_device_id_hash = h, validation_type = ''periodic'',
      success = ok, error_message = msg, ip_address = ip req, user_agent = userAgent req\<rparr>"

text \<open>
  The identifier \<open>deviceIdHash\<close> that the validate handler reads (as a shorthand
  property) when it builds the argument of \<open>db.logValidation\<close> on every path after the
  lookup succeeded. The handler declares \<open>licenseKey\<close>, \<open>deviceId\<close>, \<open>license\<close> and
  \<open>deviceHash\<close>, the module declares no \<open>deviceIdHash\<close>: reading it throws.
\<close>

definition deviceIdHash :: "js_error + string" where
  "deviceIdHash = Inl (ReferenceError ''deviceIdHash is not defined'')"

text \<open>The checks of the validate handler on the looked-up row, in the source's order.\<close>

datatype validate_branch = VDeviceMismatch | VRevoked | VExpired | VValid

definition validate_check :: "runtime \<Rightarrow> clock \<Rightarrow> string \<Rightarrow> license \<Rightarrow> validate_branch" where
  "validate_check L clk dv l =
     (if device_id_hash l \<noteq> Some (hashDeviceId L dv) then VDeviceMismatch
      else if status l = ''revoked'' then VRevoked
      else if expires_at l < clk 0 then VExpired
      else VValid)"

text \<open>The body of the \<open>try\<close> block: a thrown error is \<open>Inl\<close>, with the store as it is then.\<close>

definition validate_body :: "runtime \<Rightarrow> clock \<Rightarrow> request \<Rightarrow> db \<Rightarrow> (js_error + response) \<times> db" where
  "validate_body L clk req d =
     (case (licenseKey req, deviceId req) of
        (Some k, Some dv) \<Rightarrow>
          if k = [] \<or> dv = [] then
            (Inr (Response 400 (error_body ''License key and device ID required'')), d)
          else
            (case getLicenseByKey d k of
               None \<Rightarrow>
                 (Inr (Response 404 (error_body ''License not found'')),
                  logValidation d (periodic_log req k (hashDeviceId L dv) False
                     (Some ''License key not found'')))
             | Some l \<Rightarrow>
                 (case validate_check L clk dv l of
                    VDeviceMismatch \<Rightarrow>
                      (case deviceIdHash of
                         Inl e \<Rightarrow> (Inl e, d)
                       | Inr h \<Rightarrow>
                           (Inr (Response 403 (error_body ''Device ID mismatch'')),
                            logValidation d (periodic_log req k h False
                               (Some ''Device ID mismatch''))))
                  | VRevoked \<Rightarrow>
                      (case deviceIdHash of
                         Inl e \<Rightarrow> (Inl e, d)
                       | Inr h \<Rightarrow>
                           (Inr (Response 403 (JObj [(''error'', JStr ''License has been revoked''),
                                                     (''reason'', jopt (revoke_reason l))])),
                            logValidation d (periodic_log req k h False
                               (Some ''License has been revoked''))))
                  | VExpired \<Rightarrow>
                      (case deviceIdHash of
                         Inl e \<Rightarrow> (Inl e, d)
                       | Inr h \<Rightarrow>
                           (Inr (Response 403 (error_body ''License has expired'')),
                            logValidation d (periodic_log req k h False
                               (Some ''License has expired''))))
                  | VValid \<Rightarrow>
                      (let d1 = updateValidation d k (clk 1) in
                       case deviceIdHash of
                         Inl e \<Rightarrow> (Inl e, d1)
                       | Inr h \<Rightarrow>
                           (Inr (Response 200 (JObj [(''valid'', JBool True),
                                                     (''validatedAt'', JDate (clk 2)),
                                                     (''expiresAt'', JDate (expires_at l))])),
                            logValidation d1 (periodic_log req k h True None)))))
      | _ \<Rightarrow> (Inr (Response 400 (error_body ''License key and device ID required'')), d))"

text \<open>\<open>catch (error) { res.status(500).json({ error: 'Validation failed' }) }\<close>\<close>

definition validate :: "runtime \<Rightarrow> clock \<Rightarrow> request \<Rightarrow> db \<Rightarrow> response \<times> db" where
  "validate L clk req d =
     (case validate_body L clk req d of
        (Inl e, d') \<Rightarrow> (Response 500 (error_body ''Validation failed''), d')
      | (Inr r, d') \<Rightarrow> (r, d'))"

section \<open>routes/licenses: revoke\<close>

text \<open>A revoke request that passed \<open>authenticateToken\<close>.\<close>

record revoke_request =
  rv_licenseKey :: string
  rv_reason :: "string option"
  rv_user_id :: int
  rv_ip :: "string option"

text \<open>
  The handler is not \<open>async\<close>. \<open>db.getLicenseByKey\<close> hands it a promise, which is
  truthy whatever the store holds, so the test \<open>!license\<close> fails and the branch that
  answers 404 is not taken; \<open>db.revokeLicense\<close> and \<open>db.logActivity\<close> are started and
  the handler answers.
\<close>

definition revoke :: "clock \<Rightarrow> revoke_request \<Rightarrow> db \<Rightarrow> response \<times> db" where
  "revoke clk rq d =
     (case rv_reason rq of
        None \<Rightarrow> (Response 400 (error_body ''Revocation reason required''), d)
      | Some reason \<Rightarrow>
          if reason = [] then (Response 400 (error_body ''Revocation reason required''), d)
          else
            (let d1 = revokeLicense d (rv_licenseKey rq) reason (clk 0);
                 d2 = logActivity d1
                   \<lparr>al_user_id = Some (rv_user_id rq),
                    al_action = ''revoke_license'',
                    al_resource_type = Some ''license'',
                    al_resource_id = Some (rv_licenseKey rq),
                    al_details = Some (''Reason: '' @ reason),
                    al_ip_address = rv_ip rq\<rparr>
             in (Response 200 (JObj [(''success'', JBool True),
                   (''message'', JStr ''License revoked successfully'')]), d2)))"

section \<open>utils/crypto: generateLicenseKey\<close>

text \<open>\<open>Buffer.toString('hex').toUpperCase()\<close> on one byte.\<close>

definition hex_digit :: "nat \<Rightarrow> char" where
  "hex_digit n = ''0123456789ABCDEF'' ! (n mod 16)"

definition hex_byte :: "8 word \<Rightarrow> string" where
  "hex_byte b = [hex_digit (unat b div 16), hex_digit (unat b mod 16)]"

text \<open>The decimal numeral a template literal prints for a non-negative integer.\<close>

fun dec :: "nat \<Rightarrow> string" where
  "dec n = (if n < 10 then [''0123456789'' ! n]
            else dec (n div 10) @ [''0123456789'' ! (n mod 10)])"

declare dec.simps [simp del]

text \<open>\<open>segments.join('-')\<close>\<close>

fun join_dash :: "string list \<Rightarrow> string" where
  "join_dash [] = []"
| "join_dash [x] = x"
| "join_dash (x # y # ys) = x @ ''-'' @ join_dash (y # ys)"

text \<open>
  \<open>rnd i\<close> is the buffer returned by the \<open>i\<close>-th call of \<open>crypto.randomBytes(2)\<close>;
  the loop makes four calls. The year is read from the clock's reading 0.
\<close>

definition generateLicenseKey ::
  "runtime \<Rightarrow> clock \<Rightarrow> (nat \<Rightarrow> 8 word \<times> 8 word) \<Rightarrow> string \<Rightarrow> string \<Rightarrow> string" where
  "generateLicenseKey L clk rnd prefix country =
     (let year = getFullYear L (clk 0);
          segments = map (\<lambda>i. take 4 (hex_byte (fst (rnd i)) @ hex_byte (snd (rnd i)))) [0..<4]
      in prefix @ ''-'' @ country @ ''-'' @ dec year @ ''-'' @ join_dash segments)"

section \<open>LicenseDatabase: createLicense\<close>

record location =
  loc_restaurant :: "string option"
  loc_country :: "string option"
  loc_region :: "string option"

record license_data =
  ld_licenseKey :: string
  ld_kioskName :: string
  ld_location :: location
  ld_issuedAt :: timestamp
  ld_expiresAt :: timestamp

text \<open>
  \<open>INSERT INTO licenses ... RETURNING *\<close>, as the store carries it out. Column
  \<open>license_key\<close> is \<open>UNIQUE\<close>: the store refuses a row whose key it already holds,
  the table stays as it is and the promise that \<open>createLicense\<close> returned is rejected
  (\<open>Inl\<close>); otherwise the row is appended and the promise is fulfilled with it.
\<close>

definition createLicense :: "db \<Rightarrow> license_data \<Rightarrow> (js_error + license) \<times> db" where
  "createLicense d licenseData =
     (case find (\<lambda>r. license_key r = ld_licenseKey licenseData) (licenses d) of
        Some r \<Rightarrow> (Inl (UniqueViolation (ld_licenseKey licenseData)), d)
      | None \<Rightarrow>
          (let row =
              \<lparr>license_key = ld_licenseKey licenseData,
               device_id_hash = None,
               kiosk_name = ld_kioskName licenseData,
               location_restaurant = or_null (loc_restaurant (ld_location licenseData)),
               location_country = or_null (loc_country (ld_location licenseData)),
               location_region = or_null (loc_region (ld_location licenseData)),
               status = ''pending'',
               issued_at = ld_issuedAt licenseData,
               expires_at = ld_expiresAt licenseData,
               activated_at = None,
               last_validated_at = None,
               revoked_at = None,
               revoke_reason = None,
               updated_at = None\<rparr>
           in (Inr row, d\<lparr>licenses := licenses d @ [row]\<rparr>)))"

section \<open>routes/licenses: generate\<close>

text \<open>
  A generate request that passed \<open>authenticateToken\<close>. \<open>g_validityDays\<close> is the
  number in the body when it is an integer; \<open>g_env_validity\<close> is
  \<open>parseInt(process.env.LICENSE_VALIDITY_DAYS)\<close>, \<open>None\<close> when that is \<open>NaN\<close>.
\<close>

record generate_request =
  g_kioskName :: "string option"
  g_location :: "location option"
  g_country :: "string option"
  g_validityDays :: "int option"
  g_env_validity :: "int option"
  g_user_id :: int
  g_ip :: "string option"

text \<open>\<open>validityDays || parseInt(process.env.LICENSE_VALIDITY_DAYS) || 365\<close>\<close>

definition validity_days :: "generate_request \<Rightarrow> int" where
  "validity_days rq =
     (case g_validityDays rq of
        Some v \<Rightarrow> if v \<noteq> 0 then v
                  else (case g_env_validity rq of
                          Some e \<Rightarrow> if e \<noteq> 0 then e else 365 | None \<Rightarrow> 365)
      | None \<Rightarrow> (case g_env_validity rq of
                   Some e \<Rightarrow> if e \<noteq> 0 then e else 365 | None \<Rightarrow> 365))"

text \<open>\<open>Date.prototype.toISOString\<close> throws a RangeError outside the range of time values.\<close>

definition toISOString :: "timestamp \<Rightarrow> js_error + timestamp" where
  "toISOString t = (if \<bar>t\<bar> > 8640000000000000 then Inl RangeError else Inr t)"

text \<open>An object as \<open>JSON.stringify\<close> sees it: absent properties are left out.\<close>

definition present :: "(string \<times> string option) list \<Rightarrow> (string \<times> json) list" where
  "present ps = concat (map (\<lambda>(n, v). case v of None \<Rightarrow> [] | Some s \<Rightarrow> [(n, JStr s)]) ps)"

definition location_json :: "location \<Rightarrow> json" where
  "location_json loc =
     JObj (present [(''restaurant'', loc_restaurant loc), (''country'', loc_country loc),
                    (''region'', loc_region loc)])"

definition empty_location :: location where
  "empty_location = \<lparr>loc_restaurant = None, loc_country = None, loc_region = None\<rparr>"

text \<open>
  The body of the \<open>try\<close> block. The handler is not \<open>async\<close> and drops the promises
  of \<open>db.createLicense\<close> and \<open>db.logActivity\<close>: whether the insert was refused does
  not reach it, and it answers with the key it generated. Only \<open>toISOString\<close> can
  throw here.
\<close>

definition generate_body ::
  "runtime \<Rightarrow> clock \<Rightarrow> (nat \<Rightarrow> 8 word \<times> 8 word) \<Rightarrow> generate_request \<Rightarrow> db
     \<Rightarrow> (js_error + response) \<times> db" where
  "generate_body L clk rnd rq d =
     (case g_kioskName rq of
        None \<Rightarrow> (Inr (Response 400 (error_body ''Kiosk name is required'')), d)
      | Some kioskName \<Rightarrow>
          if kioskName = [] then (Inr (Response 400 (error_body ''Kiosk name is required'')), d)
          else
            (let country = (case g_country rq of None \<Rightarrow> ''UK'' | Some c \<Rightarrow> c);
                 key = generateLicenseKey L clk rnd ''KFC-KIO'' country;
                 issuedAt = clk 1;
                 validity = validity_days rq
             in case toISOString (clk 2 + validity * 24 * 60 * 60 * 1000) of
                  Inl e \<Rightarrow> (Inl e, d)
                | Inr expiresAt \<Rightarrow>
                    (let loc = (case g_location rq of None \<Rightarrow> empty_location | Some l \<Rightarrow> l);
                         licenseData = \<lparr>ld_licenseKey = key, ld_kioskName = kioskName,
                                         ld_location = loc, ld_issuedAt = issuedAt,
                                         ld_expiresAt = expiresAt\<rparr>;
                         d1 = snd (createLicense d licenseData);
                         d2 = logActivity d1
                                \<lparr>al_user_id = Some (g_user_id rq),
                                 al_action = ''generate_license'',
                                 al_resource_type = Some ''license'',
                                 al_resource_id = Some key,
                                 al_details = Some (json_stringify L
                                    (JObj ((''kioskName'', JStr kioskName) #
                                       (case g_location rq of
                                          None \<Rightarrow> []
                                        | Some l \<Rightarrow> [(''location'', location_json l)])))),
                                 al_ip_address = g_ip rq\<rparr>
                     in (Inr (Response 200 (JObj [(''success'', JBool True),
                           (''license'', JObj [(''licenseKey'', JStr key),
                              (''kioskName'', JStr kioskName),
                              (''location'', location_json loc),
                              (''status'', JStr ''pending''),
                              (''issuedAt'', JDate issuedAt),
                              (''expiresAt'', JDate expiresAt)])])), d2))))"

text \<open>\<open>catch (error) { res.status(500).json({ error: 'Failed to generate license' }) }\<close>\<close>

definition generate ::
  "runtime \<Rightarrow> clock \<Rightarrow> (nat \<Rightarrow> 8 word \<times> 8 word) \<Rightarrow> generate_request \<Rightarrow> db \<Rightarrow> response \<times> db" where
  "generate L clk rnd rq d =
     (case generate_body L clk rnd rq d of
        (Inl e, d') \<Rightarrow> (Response 500 (error_body ''Failed to generate license''), d')
      | (Inr r, d') \<Rightarrow> (r, d'))"

section \<open>Interleaved requests\<close>

text \<open>
  The activate handler awaits every store call, so another request can be served
  between the answer of \<open>db.getLicenseByKey\<close> and the handler's next store call. \<open>activate_found\<close> is the handler from that point on. Two activate requests
  whose lookups are both answered from the store \<open>d\<close> before either goes on, the first
  then running to its response before the second:
\<close>

definition activate_overlapped ::
  "runtime \<Rightarrow> clock \<Rightarrow> request \<Rightarrow> clock \<Rightarrow> request \<Rightarrow> string \<Rightarrow> string \<Rightarrow> string \<Rightarrow> db
     \<Rightarrow> response \<times> response \<times> db" where
  "activate_overlapped L clkA reqA clkB reqB k dvA dvB d =
     (let licA = getLicenseByKey d k;
          licB = getLicenseByKey d k;
          (rA, d1) = activate_found L clkA reqA k dvA licA d;
          (rB, d2) = activate_found L clkB reqB k dvB licB d1
      in (rA, rB, d2))"

text \<open>A sequence of device requests served one after the other.\<close>

datatype device_call = Activate clock request | Validate clock request

fun serve :: "runtime \<Rightarrow> device_call \<Rightarrow> db \<Rightarrow> response \<times> db" where
  "serve L (Activate clk req) d = activate L clk req d"
| "serve L (Validate clk req) d = validate L clk req d"

fun serve_all :: "runtime \<Rightarrow> device_call list \<Rightarrow> db \<Rightarrow> db" where
  "serve_all L [] d = d"
| "serve_all L (c # cs) d = serve_all L cs (snd (serve L c d))"

section \<open>Example values\<close>

text \<open>
  A runtime whose digest keeps device ids apart, a license as \<open>createLicense\<close>
  stores it, the same license once device \<open>dev-A\<close> has activated it, and requests of
  two devices for it.
\<close>

definition example_runtime :: runtime where
  "example_runtime =
     \<lparr>sha256_hex = (\<lambda>s. ''sha256:'' @ s),
      json_stringify = (\<lambda>j. ''{}''),
      rsa_sha256_sign = (\<lambda>k m. ''c2ln''),
      getFullYear = (\<lambda>t. 2026),
      privateKey = ''PRIVATE KEY''\<rparr>"

definition example_key :: string where
  "example_key = ''KFC-KIO-UK-2026-0000-0000-0000-0000''"

definition pending_license :: license where
  "pending_license =
     \<lparr>license_key = ''KFC-KIO-UK-2026-0000-0000-0000-0000'',
      device_id_hash = None,
      kiosk_name = ''Kiosk-1'',
      location_restaurant = Some ''Oxford Street'',
      location_country = Some ''UK'',
      location_region = None,
      status = ''pending'',
      issued_at = 0,
      expires_at = 1000,
      activated_at = None,
      last_validated_at = None,
      revoked_at = None,
      revoke_reason = None,
      updated_at = None\<rparr>"

definition bound_license :: license where
  "bound_license =
     pending_license\<lparr>device_id_hash := Some ''sha256:dev-A'', status := ''active'',
        activated_at := Some 100, last_validated_at := Some 100, updated_at := Some 100\<rparr>"

definition store_of :: "license \<Rightarrow> db" where
  "store_of l = \<lparr>licenses = [l], validation_logs = [], activity_logs = []\<rparr>"

definition request_of :: "string \<Rightarrow> request" where
  "request_of dv =
     \<lparr>licenseKey = Some ''KFC-KIO-UK-2026-0000-0000-0000-0000'', deviceId = Some dv,
      ip = Some ''10.0.0.1'', userAgent = None\<rparr>"

definition revoke_request_of :: "string \<Rightarrow> revoke_request" where
  "revoke_request_of reason =
     \<lparr>rv_licenseKey = ''KFC-KIO-UK-2026-0000-0000-0000-0000'', rv_reason = Some reason,
      rv_user_id = 1, rv_ip = None\<rparr>"

definition generate_request_of :: "string \<Rightarrow> generate_request" where
  "generate_request_of name =
     \<lparr>g_kioskName = Some name, g_location = None, g_country = None,
      g_validityDays = Some 365, g_env_validity = None, g_user_id = 1, g_ip = None\<rparr>"

section \<open>Facts about the store operations\<close>

lemmas example_defs = example_runtime_def example_key_def pending_license_def bound_license_def
  store_of_def request_of_def revoke_request_of_def generate_request_of_def

lemmas store_defs = getLicenseByKey_def activateLicense_def updateValidation_def
  revokeLicense_def logValidation_def logActivity_def or_null_def falsy_def Let_def

lemma find_key_map:
  assumes "\<And>r. license_key (f r) = license_key r"
  shows "find (\<lambda>r. license_key r = k) (map f rs) = map_option f (find (\<lambda>r. license_key r = k) rs)"
  by (induction rs) (simp_all add: assms)

lemma getLicenseByKey_key: "getLicenseByKey d k = Some l \<Longrightarrow> license_key l = k"
  unfolding getLicenseByKey_def by (auto simp: find_Some_iff)

lemma getLicenseByKey_logValidation [simp]:
  "getLicenseByKey (logValidation d x) k = getLicenseByKey d k"
  by (simp add: getLicenseByKey_def logValidation_def)

lemma licenses_logValidation [simp]: "licenses (logValidation d x) = licenses d"
  by (simp add: logValidation_def)

lemma getLicenseByKey_logActivity [simp]:
  "getLicenseByKey (logActivity d x) k = getLicenseByKey d k"
  by (simp add: getLicenseByKey_def logActivity_def)

lemma getLicenseByKey_activateLicense:
  "getLicenseByKey (activateLicense d k' h t) k =
     map_option (\<lambda>r. if license_key r = k'
         then r\<lparr>device_id_hash := Some h, status := ''active'',
                activated_at := Some t, last_validated_at := Some t, updated_at := Some t\<rparr>
         else r) (getLicenseByKey d k)"
  unfolding getLicenseByKey_def activateLicense_def
  by (simp add: find_key_map)

lemma getLicenseByKey_updateValidation:
  "getLicenseByKey (updateValidation d k' t) k =
     map_option (\<lambda>r. if license_key r = k'
         then r\<lparr>last_validated_at := Some t, updated_at := Some t\<rparr>
         else r) (getLicenseByKey d k)"
  unfolding getLicenseByKey_def updateValidation_def
  by (simp add: find_key_map)

lemma getLicenseByKey_revokeLicense:
  "getLicenseByKey (revokeLicense d k' reason t) k =
     map_option (\<lambda>r. if license_key r = k'
         then r\<lparr>status := ''revoked'', revoked_at := Some t,
                revoke_reason := Some reason, updated_at := Some t\<rparr>
         else r) (getLicenseByKey d k)"
  unfolding getLicenseByKey_def revokeLicense_def
  by (simp add: find_key_map)

section \<open>Facts about the handlers\<close>

lemma activate_first:
  assumes "getLicenseByKey d k = Some l" and "status l = ''pending''"
    and "\<not> expires_at l < clk 0" and "k \<noteq> []" and "dv \<noteq> []"
    and "licenseKey req = Some k" and "deviceId req = Some dv"
  shows "activate L clk req d =
     (Response 200 (signed_body L (new_licenseResponse clk l (hashDeviceId L dv))),
      logValidation (activateLicense d k (hashDeviceId L dv) (clk 1))
        (activation_log req k (hashDeviceId L dv) True None))"
  using assms by (simp add: activate_def activate_found_def Let_def)

lemma activate_other_device:
  assumes "getLicenseByKey d k = Some l" and "status l = ''active''"
    and "device_id_hash l = Some h" and "h \<noteq> []" and "hashDeviceId L dv \<noteq> h"
    and "k \<noteq> []" and "dv \<noteq> []"
    and "licenseKey req = Some k" and "deviceId req = Some dv"
  shows "activate L clk req d =
     (Response 403 (error_body ''License already activated on another device''),
      logValidation d (activation_log req k (hashDeviceId L dv) False
        (Some ''License already activated on another device'')))"
  using assms by (auto simp add: activate_def activate_found_def Let_def falsy_def)

lemma activate_revoked:
  assumes "getLicenseByKey d k = Some l" and "status l = ''revoked''"
    and "k \<noteq> []" and "dv \<noteq> []"
    and "licenseKey req = Some k" and "deviceId req = Some dv"
  shows "activate L clk req d =
     (Response 403 (JObj [(''error'', JStr ''License has been revoked''),
                          (''reason'', jopt (revoke_reason l))]),
      logValidation d (activation_log req k (hashDeviceId L dv) False
        (Some ''License has been revoked'')))"
  using assms by (simp add: activate_def activate_found_def)

text \<open>
  Once the lookup of the validate handler has found a row, every path reads
  \<open>deviceIdHash\<close>: the handler answers 500, after \<open>db.updateValidation\<close> on the path
  where all checks passed and without any write on the others.
\<close>

lemma validate_body_found:
  assumes "getLicenseByKey d k = Some l" and "k \<noteq> []" and "dv \<noteq> []"
    and "licenseKey req = Some k" and "deviceId req = Some dv"
  shows "validate_body L clk req d =
     (Inl (ReferenceError ''deviceIdHash is not defined''),
      if validate_check L clk dv l = VValid then updateValidation d k (clk 1) else d)"
  using assms
  by (cases "validate_check L clk dv l")
     (simp_all add: validate_body_def deviceIdHash_def Let_def)

lemma validate_found:
  assumes "getLicenseByKey d k = Some l" and "k \<noteq> []" and "dv \<noteq> []"
    and "licenseKey req = Some k" and "deviceId req = Some dv"
  shows "validate L clk req d =
     (Response 500 (error_body ''Validation failed''),
      if validate_check L clk dv l = VValid then updateValidation d k (clk 1) else d)"
  by (simp add: validate_def validate_body_found [OF assms])

lemma revoke_found:
  assumes "getLicenseByKey d k = Some l"
    and "rv_licenseKey rq = k" and "rv_reason rq = Some r" and "r \<noteq> []"
  shows "fst (revoke clk rq d) =
           Response 200 (JObj [(''success'', JBool True),
                               (''message'', JStr ''License revoked successfully'')])"
    and "getLicenseByKey (snd (revoke clk rq d)) k =
           Some (l\<lparr>status := ''revoked'', revoked_at := Some (clk 0),
                   revoke_reason := Some r, updated_at := Some (clk 0)\<rparr>)"
proof -
  have key: "license_key l = k" using assms(1) by (rule getLicenseByKey_key)
  show "fst (revoke clk rq d) =
           Response 200 (JObj [(''success'', JBool True),
                               (''message'', JStr ''License revoked successfully'')])"
    using assms by (simp add: revoke_def Let_def)
  show "getLicenseByKey (snd (revoke clk rq d)) k =
           Some (l\<lparr>status := ''revoked'', revoked_at := Some (clk 0),
                   revoke_reason := Some r, updated_at := Some (clk 0)\<rparr>)"
    using assms key by (simp add: revoke_def Let_def getLicenseByKey_revokeLicense)
qed

lemma licenses_logActivity [simp]: "licenses (logActivity d x) = licenses d"
  by (simp add: logActivity_def)

text \<open>The key depends on the first four draws of random bytes only.\<close>

lemma generateLicenseKey_draws:
  assumes "\<forall>i<4. rnd' i = rnd i"
  shows "generateLicenseKey L clk rnd' prefix country = generateLicenseKey L clk rnd prefix country"
proof -
  have "map (\<lambda>i. take 4 (hex_byte (fst (rnd' i)) @ hex_byte (snd (rnd' i)))) [0..<4] =
      map (\<lambda>i. take 4 (hex_byte (fst (rnd i)) @ hex_byte (snd (rnd i)))) [0..<4]"
    using assms by (intro map_cong) auto
  then show ?thesis
    by (simp only: generateLicenseKey_def Let_def)
qed

text \<open>No device request changes a revoked row.\<close>

lemma serve_keeps_revoked_row:
  assumes "getLicenseByKey d k = Some l" and "status l = ''revoked''"
  shows "getLicenseByKey (snd (serve L c d)) k = Some l"
proof (cases c)
  case (Activate clk req)
  have key: "license_key l = k" using assms(1) by (rule getLicenseByKey_key)
  show ?thesis
  proof (cases "licenseKey req")
    case None
    then show ?thesis using assms by (simp add: Activate activate_def)
  next
    case (Some k')
    show ?thesis
    proof (cases "k' = k")
      case True
      then show ?thesis using assms Some
        by (simp add: Activate activate_def activate_found_def Let_def
            split: option.splits)
    next
      case False
      then show ?thesis using assms Some key
        by (simp add: Activate activate_def activate_found_def Let_def
            getLicenseByKey_activateLicense split: option.splits)
    qed
  qed
next
  case (Validate clk req)
  have key: "license_key l = k" using assms(1) by (rule getLicenseByKey_key)
  show ?thesis
  proof (cases "licenseKey req")
    case None
    then show ?thesis using assms by (simp add: Validate validate_def validate_body_def)
  next
    case (Some k')
    show ?thesis
    proof (cases "k' = k")
      case True
      then show ?thesis using assms Some
        by (simp add: Validate validate_def validate_body_def validate_check_def
            deviceIdHash_def Let_def split: option.splits)
    next
      case False
      then show ?thesis using assms Some key
        by (simp add: Validate validate_def validate_body_def deviceIdHash_def Let_def
            getLicenseByKey_updateValidation split: option.splits validate_branch.splits)
    qed
  qed
qed

lemma serve_all_keeps_revoked_row:
  assumes "getLicenseByKey d k = Some l" and "status l = ''revoked''"
  shows "getLicenseByKey (serve_all L cs d) k = Some l"
  using assms
  by (induction cs arbitrary: d) (simp_all add: serve_keeps_revoked_row)

text \<open>
  After a revocation, whatever device requests follow, the row keeps the status and the
  reason, and an activate request for the key is answered with that reason.
\<close>

lemma activate_after_revoke:
  assumes "getLicenseByKey d k = Some l"
    and "rv_licenseKey rq = k" and "rv_reason rq = Some r1" and "r1 \<noteq> []"
    and "k \<noteq> []" and "dv \<noteq> []"
    and "licenseKey req = Some k" and "deviceId req = Some dv"
  shows "getLicenseByKey (serve_all L calls (snd (revoke clk rq d))) k =
           Some (l\<lparr>status := ''revoked'', revoked_at := Some (clk 0),
                   revoke_reason := Some r1, updated_at := Some (clk 0)\<rparr>)"
    and "fst (activate L clk' req (serve_all L calls (snd (revoke clk rq d)))) =
           Response 403 (JObj [(''error'', JStr ''License has been revoked''),
                               (''reason'', JStr r1)])"
proof -
  let ?l1 = "l\<lparr>status := ''revoked'', revoked_at := Some (clk 0),
                revoke_reason := Some r1, updated_at := Some (clk 0)\<rparr>"
  let ?D = "serve_all L calls (snd (revoke clk rq d))"
  have r0: "getLicenseByKey (snd (revoke clk rq d)) k = Some ?l1"
    using assms(1-4) by (rule revoke_found(2))
  show c2: "getLicenseByKey ?D k = Some ?l1"
    using r0 by (rule serve_all_keeps_revoked_row) simp
  show "fst (activate L clk' req ?D) =
           Response 403 (JObj [(''error'', JStr ''License has been revoked''),
                               (''reason'', JStr r1)])"
    using activate_revoked [OF c2 _ assms(5-8), of L clk'] by (simp add: jopt_def)
qed

section \<open>Activation of a pending license by two devices\<close>

text \<open>
  C1, as stated: the pending-to-active transition is one conditional atomic operation
  of the store, so that of two overlapping activate requests for the same pending key
  with different device ids exactly one succeeds and the other is told that the license
  is bound to another device. \<open>activateLicense\<close> updates by key alone and the handler
  decides on the row it looked up earlier: when both lookups are answered before either
  update, both requests succeed and the fingerprint of the later writer is stored.
\<close>

theorem activate_overlapped_both_succeed:
  "activate_overlapped example_runtime (\<lambda>n. 500) (request_of ''dev-A'')
      (\<lambda>n. 600) (request_of ''dev-B'') example_key ''dev-A'' ''dev-B'' (store_of pending_license) =
    (Response 200 (signed_body example_runtime
        (new_licenseResponse (\<lambda>n. 500) pending_license ''sha256:dev-A'')),
     Response 200 (signed_body example_runtime
        (new_licenseResponse (\<lambda>n. 600) pending_license ''sha256:dev-B'')),
     \<lparr>licenses = [pending_license\<lparr>device_id_hash := Some ''sha256:dev-B'', status := ''active'',
        activated_at := Some 600, last_validated_at := Some 600, updated_at := Some 600\<rparr>],
      validation_logs =
        [activation_log (request_of ''dev-A'') example_key ''sha256:dev-A'' True None,
         activation_log (request_of ''dev-B'') example_key ''sha256:dev-B'' True None],
      activity_logs = []\<rparr>)"
  by (simp add: activate_overlapped_def activate_found_def activation_log_def
      hashDeviceId_def example_defs store_defs)

text \<open>
  C1, amended: when the two activate requests for a pending, unexpired license are
  served one after the other (the second lookup follows the first update) and the two
  fingerprints differ, the first succeeds, the second is answered 403 "License already
  activated on another device", and the license stays active and bound to the first
  device's fingerprint.
\<close>

theorem activate_one_after_the_other:
  assumes "getLicenseByKey d k = Some l" and "status l = ''pending''"
    and "\<not> expires_at l < clkA 0"
    and "k \<noteq> []" and "dvA \<noteq> []" and "dvB \<noteq> []"
    and "licenseKey reqA = Some k" and "deviceId reqA = Some dvA"
    and "licenseKey reqB = Some k" and "deviceId reqB = Some dvB"
    and "hashDeviceId L dvA \<noteq> []" and "hashDeviceId L dvB \<noteq> hashDeviceId L dvA"
  shows "fst (activate L clkA reqA d) =
           Response 200 (signed_body L (new_licenseResponse clkA l (hashDeviceId L dvA)))
       \<and> fst (activate L clkB reqB (snd (activate L clkA reqA d))) =
           Response 403 (error_body ''License already activated on another device'')
       \<and> getLicenseByKey (snd (activate L clkB reqB (snd (activate L clkA reqA d)))) k =
           Some (l\<lparr>device_id_hash := Some (hashDeviceId L dvA), status := ''active'',
                   activated_at := Some (clkA 1), last_validated_at := Some (clkA 1),
                   updated_at := Some (clkA 1)\<rparr>)"
proof -
  let ?h = "hashDeviceId L dvA"
  let ?l' = "l\<lparr>device_id_hash := Some ?h, status := ''active'',
                activated_at := Some (clkA 1), last_validated_at := Some (clkA 1),
                updated_at := Some (clkA 1)\<rparr>"
  let ?d1 = "snd (activate L clkA reqA d)"
  have key: "license_key l = k" using assms(1) by (rule getLicenseByKey_key)
  have first: "activate L clkA reqA d =
     (Response 200 (signed_body L (new_licenseResponse clkA l ?h)),
      logValidation (activateLicense d k ?h (clkA 1)) (activation_log reqA k ?h True None))"
    using assms by (intro activate_first) simp_all
  have row: "getLicenseByKey ?d1 k = Some ?l'"
    by (simp add: first getLicenseByKey_activateLicense assms(1) key)
  have second: "activate L clkB reqB ?d1 =
     (Response 403 (error_body ''License already activated on another device''),
      logValidation ?d1 (activation_log reqB k (hashDeviceId L dvB) False
        (Some ''License already activated on another device'')))"
    by (rule activate_other_device [OF row, where h = ?h]) (use assms in simp_all)
  have c1: "fst (activate L clkA reqA d) =
      Response 200 (signed_body L (new_licenseResponse clkA l ?h))"
    by (simp add: first)
  have c2: "fst (activate L clkB reqB ?d1) =
      Response 403 (error_body ''License already activated on another device'')"
    by (simp only: second fst_conv)
  have c3: "getLicenseByKey (snd (activate L clkB reqB ?d1)) k = Some ?l'"
    by (simp only: second snd_conv getLicenseByKey_logValidation row)
  from c1 c2 c3 show ?thesis by blast
qed

text \<open>The amended C1 at the example license, for devices \<open>dev-A\<close> then \<open>dev-B\<close>.\<close>

theorem activate_one_after_the_other_witness:
  "getLicenseByKey (store_of pending_license) example_key = Some pending_license
   \<and> status pending_license = ''pending''
   \<and> \<not> expires_at pending_license < 500
   \<and> hashDeviceId example_runtime ''dev-A'' \<noteq> []
   \<and> hashDeviceId example_runtime ''dev-B'' \<noteq> hashDeviceId example_runtime ''dev-A''
   \<and> fst (activate example_runtime (\<lambda>n. 500) (request_of ''dev-A'') (store_of pending_license)) =
        Response 200 (signed_body example_runtime
          (new_licenseResponse (\<lambda>n. 500) pending_license ''sha256:dev-A''))
   \<and> fst (activate example_runtime (\<lambda>n. 600) (request_of ''dev-B'')
        (snd (activate example_runtime (\<lambda>n. 500) (request_of ''dev-A'') (store_of pending_license)))) =
        Response 403 (error_body ''License already activated on another device'')
   \<and> getLicenseByKey (snd (activate example_runtime (\<lambda>n. 600) (request_of ''dev-B'')
        (snd (activate example_runtime (\<lambda>n. 500) (request_of ''dev-A'') (store_of pending_license)))))
        example_key =
        Some (pending_license\<lparr>device_id_hash := Some ''sha256:dev-A'', status := ''active'',
                activated_at := Some 500, last_validated_at := Some 500,
                updated_at := Some 500\<rparr>)"
proof -
  have h1: "getLicenseByKey (store_of pending_license) example_key = Some pending_license"
    by (simp add: example_defs getLicenseByKey_def)
  have h2: "status pending_license = ''pending''"
    by (simp add: pending_license_def)
  have h3: "\<not> expires_at pending_license < (\<lambda>n::nat. 500::int) 0"
    by (simp add: pending_license_def)
  have h4: "example_key \<noteq> []" "''dev-A'' \<noteq> []" "''dev-B'' \<noteq> []"
    by (simp_all add: example_key_def)
  have h5: "licenseKey (request_of ''dev-A'') = Some example_key"
    "deviceId (request_of ''dev-A'') = Some ''dev-A''"
    "licenseKey (request_of ''dev-B'') = Some example_key"
    "deviceId (request_of ''dev-B'') = Some ''dev-B''"
    by (simp_all add: request_of_def example_key_def)
  have h6: "hashDeviceId example_runtime ''dev-A'' \<noteq> []"
    "hashDeviceId example_runtime ''dev-B'' \<noteq> hashDeviceId example_runtime ''dev-A''"
    by (simp_all add: hashDeviceId_def example_runtime_def)
  have h7: "hashDeviceId example_runtime ''dev-A'' = ''sha256:dev-A''"
    by (simp add: hashDeviceId_def example_runtime_def)
  note t = activate_one_after_the_other [OF h1 h2 h3 h4 h5 h6, of "\<lambda>n. 600"]
  show ?thesis
    using t h1 h2 h3 h6 unfolding h7 by simp
qed

section \<open>Activation of an expired license\<close>

text \<open>
  C2, as stated: an activate request for a license whose \<open>expires_at\<close> is earlier than
  the current time fails with "License has expired" for every device, also for the device
  an active license is bound to. The handler tests "already activated" first: the bound
  device of an expired active license is answered 200 with a signed assertion.
\<close>

theorem activate_expired_bound_device_succeeds:
  "expires_at bound_license < 2000
   \<and> activate example_runtime (\<lambda>n. 2000) (request_of ''dev-A'') (store_of bound_license) =
       (Response 200 (signed_body example_runtime
          (existing_licenseResponse bound_license ''sha256:dev-A'')), store_of bound_license)"
  by (simp add: activate_def activate_found_def hashDeviceId_def example_defs store_defs)

text \<open>
  C2, amended: an activate request for a license whose \<open>expires_at\<close> is earlier than the
  current time, and which is neither active with a bound fingerprint nor revoked, is
  answered 403 "License has expired" for every device; it leaves the licenses as they
  are and writes one failed activation entry to the validation log.
\<close>

theorem activate_expired_unbound:
  assumes "getLicenseByKey d k = Some l" and "expires_at l < clk 0"
    and "\<not> (status l = ''active'' \<and> \<not> falsy (device_id_hash l))"
    and "status l \<noteq> ''revoked''"
    and "k \<noteq> []" and "dv \<noteq> []"
    and "licenseKey req = Some k" and "deviceId req = Some dv"
  shows "activate L clk req d =
     (Response 403 (error_body ''License has expired''),
      logValidation d (activation_log req k (hashDeviceId L dv) False
        (Some ''License has expired'')))"
  using assms by (auto simp add: activate_def activate_found_def)

text \<open>The amended C2 at the example license, never activated and past its expiry.\<close>

theorem activate_expired_unbound_witness:
  "getLicenseByKey (store_of pending_license) example_key = Some pending_license
   \<and> expires_at pending_license < 2000
   \<and> \<not> (status pending_license = ''active'' \<and> \<not> falsy (device_id_hash pending_license))
   \<and> status pending_license \<noteq> ''revoked''
   \<and> activate example_runtime (\<lambda>n. 2000) (request_of ''dev-A'') (store_of pending_license) =
       (Response 403 (error_body ''License has expired''),
        logValidation (store_of pending_license)
          (activation_log (request_of ''dev-A'') example_key ''sha256:dev-A'' False
             (Some ''License has expired'')))"
proof -
  have h1: "getLicenseByKey (store_of pending_license) example_key = Some pending_license"
    by (simp add: example_defs getLicenseByKey_def)
  have h2: "expires_at pending_license < (\<lambda>n::nat. 2000::int) 0"
    by (simp add: pending_license_def)
  have h3: "\<not> (status pending_license = ''active'' \<and> \<not> falsy (device_id_hash pending_license))"
    by (simp add: pending_license_def)
  have h4: "status pending_license \<noteq> ''revoked''"
    by (simp add: pending_license_def)
  have h5: "example_key \<noteq> []" "''dev-A'' \<noteq> []"
    "licenseKey (request_of ''dev-A'') = Some example_key"
    "deviceId (request_of ''dev-A'') = Some ''dev-A''"
    by (simp_all add: request_of_def example_key_def)
  have h6: "hashDeviceId example_runtime ''dev-A'' = ''sha256:dev-A''"
    by (simp add: hashDeviceId_def example_runtime_def)
  note t = activate_expired_unbound [OF h1 h2 h3 h4 h5, of example_runtime]
  show ?thesis
    using t h1 h2 h3 h4 unfolding h6 by simp
qed

section \<open>Validation by the bound device\<close>

text \<open>
  C3: a validate request for an existing, unrevoked, unexpired license by the device it
  is bound to succeeds, sets \<open>last_validated_at\<close>, returns the expiry, and changes
  neither status nor fingerprint. At the example license bound to \<open>dev-A\<close> the handler
  writes \<open>last_validated_at\<close> and \<open>updated_at\<close>, then reads \<open>deviceIdHash\<close> while
  building the log entry: the request is answered 500 "Validation failed" and no log
  entry is written.
\<close>

theorem validate_bound_device_fails:
  "validate example_runtime (\<lambda>n. 500) (request_of ''dev-A'') (store_of bound_license) =
    (Response 500 (error_body ''Validation failed''),
     store_of (bound_license\<lparr>last_validated_at := Some 500, updated_at := Some 500\<rparr>))"
  by (simp add: validate_def validate_body_def validate_check_def deviceIdHash_def
      hashDeviceId_def example_defs store_defs)

section \<open>Validation of an expired license\<close>

text \<open>
  C4: a validate request for a license whose \<open>expires_at\<close> is in the past fails
  with "License has expired", whether or not the device matches. At the example license,
  bound to \<open>dev-A\<close> and past its expiry, the request of \<open>dev-A\<close> passes the device
  check and the revocation check and fails the expiry check; there the handler reads
  \<open>deviceIdHash\<close> while building the log entry, and the request is answered 500
  "Validation failed", with nothing logged.
\<close>

theorem validate_expired_bound_device_answers_500:
  "expires_at bound_license < 2000
   \<and> validate example_runtime (\<lambda>n. 2000) (request_of ''dev-A'') (store_of bound_license) =
       (Response 500 (error_body ''Validation failed''), store_of bound_license)"
  by (simp add: validate_def validate_body_def validate_check_def deviceIdHash_def
      hashDeviceId_def example_defs store_defs)

section \<open>One log entry for every attempt\<close>

text \<open>
  C5: every activate and every validate attempt, whatever its outcome, writes exactly
  one entry to \<open>validation_logs\<close>. A repeated activation by the bound device is
  answered 200 and a validation of an existing license is answered 500; the log is empty
  before and after both.
\<close>

theorem reactivation_and_validation_write_no_log:
  "activate example_runtime (\<lambda>n. 500) (request_of ''dev-A'') (store_of bound_license) =
     (Response 200 (signed_body example_runtime
        (existing_licenseResponse bound_license ''sha256:dev-A'')), store_of bound_license)
   \<and> validation_logs (store_of bound_license) = []
   \<and> validation_logs (snd (validate example_runtime (\<lambda>n. 500) (request_of ''dev-A'')
        (store_of bound_license))) = []"
  by (simp add: activate_def activate_found_def validate_def validate_body_def
      validate_check_def deviceIdHash_def hashDeviceId_def example_defs store_defs)

section \<open>Revocation\<close>

text \<open>
  C6: after \<open>revoke(key, "r1")\<close> every later activate or validate request for the key
  fails with the reason \<open>r1\<close>, and a second \<open>revoke(key, "r2")\<close> does not change
  the stored reason. At the example license bound to \<open>dev-A\<close>, revoked with the reason
  \<open>lost\<close>: the validate request of \<open>dev-A\<close> reaches the revocation check, where the
  handler reads \<open>deviceIdHash\<close>, and is answered 500 "Validation failed", without the
  reason; a second revoke with the reason \<open>r2\<close> is answered 200 and the stored reason
  becomes \<open>r2\<close>.
\<close>

theorem validate_after_revoke_answers_500:
  "fst (revoke (\<lambda>n. 600) (revoke_request_of ''lost'') (store_of bound_license)) =
     Response 200 (JObj [(''success'', JBool True),
                         (''message'', JStr ''License revoked successfully'')])
   \<and> licenses (snd (revoke (\<lambda>n. 600) (revoke_request_of ''lost'') (store_of bound_license))) =
     [bound_license\<lparr>status := ''revoked'', revoked_at := Some 600,
         revoke_reason := Some ''lost'', updated_at := Some 600\<rparr>]
   \<and> fst (validate example_runtime (\<lambda>n. 700) (request_of ''dev-A'')
        (snd (revoke (\<lambda>n. 600) (revoke_request_of ''lost'') (store_of bound_license)))) =
     Response 500 (error_body ''Validation failed'')
   \<and> fst (revoke (\<lambda>n. 800) (revoke_request_of ''r2'')
        (snd (revoke (\<lambda>n. 600) (revoke_request_of ''lost'') (store_of bound_license)))) =
     Response 200 (JObj [(''success'', JBool True),
                         (''message'', JStr ''License revoked successfully'')])
   \<and> licenses (snd (revoke (\<lambda>n. 800) (revoke_request_of ''r2'')
        (snd (revoke (\<lambda>n. 600) (revoke_request_of ''lost'') (store_of bound_license))))) =
     [bound_license\<lparr>status := ''revoked'', revoked_at := Some 800,
         revoke_reason := Some ''r2'', updated_at := Some 800\<rparr>]"
  by (simp add: revoke_def validate_def validate_body_def validate_check_def deviceIdHash_def
      hashDeviceId_def example_defs store_defs)

section \<open>Key collisions on issue\<close>

text \<open>
  C7, as stated: the generated key is checked against the store before the license is
  issued, and on a collision another key is generated rather than the existing key
  reused. The route makes no lookup and generates one key. At a store that already holds
  the key, the insert is refused, and the request is answered 200 with that key as the
  key of a new pending license for \<open>Kiosk-2\<close>, while the store still holds the license
  of \<open>Kiosk-1\<close> under it.
\<close>

theorem generate_collision_answered_as_issued:
  "generateLicenseKey example_runtime (\<lambda>n. 500) (\<lambda>n. (0, 0)) ''KFC-KIO'' ''UK'' =
     license_key pending_license
   \<and> generate example_runtime (\<lambda>n. 500) (\<lambda>n. (0, 0)) (generate_request_of ''Kiosk-2'')
       (store_of pending_license) =
     (Response 200 (JObj [(''success'', JBool True),
        (''license'', JObj [(''licenseKey'', JStr ''KFC-KIO-UK-2026-0000-0000-0000-0000''),
           (''kioskName'', JStr ''Kiosk-2''),
           (''location'', JObj []),
           (''status'', JStr ''pending''),
           (''issuedAt'', JDate 500),
           (''expiresAt'', JDate 31536000500)])]),
      \<lparr>licenses = [pending_license], validation_logs = [],
       activity_logs =
         [\<lparr>al_user_id = Some 1, al_action = ''generate_license'',
           al_resource_type = Some ''license'',
           al_resource_id = Some ''KFC-KIO-UK-2026-0000-0000-0000-0000'',
           al_details = Some ''{}'', al_ip_address = None\<rparr>]\<rparr>)"
  by (simp add: generate_def generate_body_def generateLicenseKey_def hex_byte_def hex_digit_def
      dec.simps upt_rec toISOString_def validity_days_def createLicense_def location_json_def
      present_def empty_location_def user_or_null_def example_defs store_defs)

text \<open>
  C7, amended: the generate route generates one key, from four draws of two random
  bytes, and inserts the license under it without looking the key up first. When the
  store holds no license with that key, a pending license with the key, the kiosk name,
  the location and the two dates of the request is added to it. When the store already
  holds one, the unique constraint refuses the insert and the licenses stay as they are:
  the existing license is not overwritten, and no other key is generated.
\<close>

theorem generate_inserts_or_keeps:
  assumes "g_kioskName rq = Some n" and "n \<noteq> []"
    and "\<bar>clk 2 + validity_days rq * 24 * 60 * 60 * 1000\<bar> \<le> 8640000000000000"
  shows "licenses (snd (generate L clk rnd rq d)) =
     (case getLicenseByKey d (generateLicenseKey L clk rnd ''KFC-KIO''
              (case g_country rq of None \<Rightarrow> ''UK'' | Some c \<Rightarrow> c)) of
        Some l \<Rightarrow> licenses d
      | None \<Rightarrow> licenses d @
          [\<lparr>license_key = generateLicenseKey L clk rnd ''KFC-KIO''
               (case g_country rq of None \<Rightarrow> ''UK'' | Some c \<Rightarrow> c),
            device_id_hash = None,
            kiosk_name = n,
            location_restaurant = or_null (loc_restaurant
               (case g_location rq of None \<Rightarrow> empty_location | Some l \<Rightarrow> l)),
            location_country = or_null (loc_country
               (case g_location rq of None \<Rightarrow> empty_location | Some l \<Rightarrow> l)),
            location_region = or_null (loc_region
               (case g_location rq of None \<Rightarrow> empty_location | Some l \<Rightarrow> l)),
            status = ''pending'',
            issued_at = clk 1,
            expires_at = clk 2 + validity_days rq * 24 * 60 * 60 * 1000,
            activated_at = None,
            last_validated_at = None,
            revoked_at = None,
            revoke_reason = None,
            updated_at = None\<rparr>])
   \<and> ((\<forall>i<4. rnd' i = rnd i) \<longrightarrow>
        generate L clk rnd' rq d = generate L clk rnd rq d)"
proof -
  have iso: "toISOString (clk 2 + validity_days rq * 24 * 60 * 60 * 1000) =
      Inr (clk 2 + validity_days rq * 24 * 60 * 60 * 1000)"
    using assms(3) by (simp add: toISOString_def)
  have a: "licenses (snd (generate L clk rnd rq d)) =
     (case getLicenseByKey d (generateLicenseKey L clk rnd ''KFC-KIO''
              (case g_country rq of None \<Rightarrow> ''UK'' | Some c \<Rightarrow> c)) of
        Some l \<Rightarrow> licenses d
      | None \<Rightarrow> licenses d @
          [\<lparr>license_key = generateLicenseKey L clk rnd ''KFC-KIO''
               (case g_country rq of None \<Rightarrow> ''UK'' | Some c \<Rightarrow> c),
            device_id_hash = None,
            kiosk_name = n,
            location_restaurant = or_null (loc_restaurant
               (case g_location rq of None \<Rightarrow> empty_location | Some l \<Rightarrow> l)),
            location_country = or_null (loc_country
               (case g_location rq of None \<Rightarrow> empty_location | Some l \<Rightarrow> l)),
            location_region = or_null (loc_region
               (case g_location rq of None \<Rightarrow> empty_location | Some l \<Rightarrow> l)),
            status = ''pending'',
            issued_at = clk 1,
            expires_at = clk 2 + validity_days rq * 24 * 60 * 60 * 1000,
            activated_at = None,
            last_validated_at = None,
            revoked_at = None,
            revoke_reason = None,
            updated_at = None\<rparr>])"
    using assms(1,2) iso
    by (simp add: generate_def generate_body_def createLicense_def getLicenseByKey_def
        Let_def split: option.splits)
  have b: "(\<forall>i<4. rnd' i = rnd i) \<longrightarrow> generate L clk rnd' rq d = generate L clk rnd rq d"
  proof
    assume "\<forall>i<4. rnd' i = rnd i"
    then have eq: "generateLicenseKey L clk rnd' ''KFC-KIO'' c =
        generateLicenseKey L clk rnd ''KFC-KIO'' c" for c
      by (rule generateLicenseKey_draws)
    show "generate L clk rnd' rq d = generate L clk rnd rq d"
      by (simp only: generate_def generate_body_def eq)
  qed
  from a b show ?thesis by blast
qed

text \<open>
  The amended C7 at the example store, with random bytes that give a key the store does
  not hold.
\<close>

theorem generate_inserts_or_keeps_witness:
  "\<bar>(500::int) + validity_days (generate_request_of ''Kiosk-2'') * 24 * 60 * 60 * 1000\<bar>
      \<le> 8640000000000000
   \<and> getLicenseByKey (store_of pending_license)
        (generateLicenseKey example_runtime (\<lambda>n. 500) (\<lambda>n. (0xAB, 0x0F)) ''KFC-KIO'' ''UK'') = None
   \<and> licenses (snd (generate example_runtime (\<lambda>n. 500) (\<lambda>n. (0xAB, 0x0F))
        (generate_request_of ''Kiosk-2'') (store_of pending_license))) =
       [pending_license,
        \<lparr>license_key = ''KFC-KIO-UK-2026-AB0F-AB0F-AB0F-AB0F'',
         device_id_hash = None,
         kiosk_name = ''Kiosk-2'',
         location_restaurant = None,
         location_country = None,
         location_region = None,
         status = ''pending'',
         issued_at = 500,
         expires_at = 31536000500,
         activated_at = None,
         last_validated_at = None,
         revoked_at = None,
         revoke_reason = None,
         updated_at = None\<rparr>]
   \<and> generate example_runtime (\<lambda>n. 500) (\<lambda>n. if n < 4 then (0xAB, 0x0F) else (0x12, 0x34))
        (generate_request_of ''Kiosk-2'') (store_of pending_license) =
     generate example_runtime (\<lambda>n. 500) (\<lambda>n. (0xAB, 0x0F))
        (generate_request_of ''Kiosk-2'') (store_of pending_license)"
proof -
  have k: "generateLicenseKey example_runtime (\<lambda>n. 500) (\<lambda>n. (0xAB, 0x0F)) ''KFC-KIO'' ''UK'' =
      ''KFC-KIO-UK-2026-AB0F-AB0F-AB0F-AB0F''"
    by (simp add: generateLicenseKey_def hex_byte_def hex_digit_def dec.simps upt_rec
        example_runtime_def)
  have h1: "g_kioskName (generate_request_of ''Kiosk-2'') = Some ''Kiosk-2''" "''Kiosk-2'' \<noteq> []"
    by (simp_all add: generate_request_of_def)
  have h2: "\<bar>(\<lambda>n::nat. 500::int) 2 +
      validity_days (generate_request_of ''Kiosk-2'') * 24 * 60 * 60 * 1000\<bar>
      \<le> 8640000000000000"
    by (simp add: validity_days_def generate_request_of_def)
  have h3: "getLicenseByKey (store_of pending_license)
        (generateLicenseKey example_runtime (\<lambda>n. 500) (\<lambda>n. (0xAB, 0x0F)) ''KFC-KIO'' ''UK'') = None"
    by (simp add: k getLicenseByKey_def store_of_def pending_license_def)
  have h4: "\<forall>i<4. (\<lambda>n::nat. if n < 4 then (0xAB, 0x0F) else (0x12::8 word, 0x34::8 word)) i =
      (\<lambda>n. (0xAB, 0x0F)) i"
    by simp
  have c: "g_country (generate_request_of ''Kiosk-2'') = None"
    "g_location (generate_request_of ''Kiosk-2'') = None"
    "validity_days (generate_request_of ''Kiosk-2'') = 365"
    by (simp_all add: generate_request_of_def validity_days_def)
  note t = generate_inserts_or_keeps [OF h1 h2, of example_runtime "\<lambda>n. (0xAB, 0x0F)"
      "store_of pending_license" "\<lambda>n. if n < 4 then (0xAB, 0x0F) else (0x12, 0x34)"]
  have t1: "licenses (snd (generate example_runtime (\<lambda>n. 500) (\<lambda>n. (0xAB, 0x0F))
        (generate_request_of ''Kiosk-2'') (store_of pending_license))) =
       [pending_license,
        \<lparr>license_key = ''KFC-KIO-UK-2026-AB0F-AB0F-AB0F-AB0F'',
         device_id_hash = None, kiosk_name = ''Kiosk-2'',
         location_restaurant = None, location_country = None, location_region = None,
         status = ''pending'', issued_at = 500, expires_at = 31536000500,
         activated_at = None, last_validated_at = None, revoked_at = None,
         revoke_reason = None, updated_at = None\<rparr>]"
    using t h3 by (simp add: c k store_of_def empty_location_def or_null_def falsy_def)
  have t2: "generate example_runtime (\<lambda>n. 500) (\<lambda>n. if n < 4 then (0xAB, 0x0F) else (0x12, 0x34))
        (generate_request_of ''Kiosk-2'') (store_of pending_license) =
     generate example_runtime (\<lambda>n. 500) (\<lambda>n. (0xAB, 0x0F))
        (generate_request_of ''Kiosk-2'') (store_of pending_license)"
    using t h4 by blast
  from h2 h3 t1 t2 show ?thesis by simp
qed

section \<open>Validation before activation\<close>

text \<open>
  C8: a validate request for an existing license whose stored fingerprint differs from
  the device's (or is null, the license never activated) fails with "Device ID
  mismatch". At the example license, never activated, the handler takes the
  device-mismatch path and reads \<open>deviceIdHash\<close> there: the request is answered 500
  "Validation failed".
\<close>

theorem validate_before_activate_answers_500:
  "device_id_hash pending_license = None
   \<and> validate_check example_runtime (\<lambda>n. 500) ''dev-A'' pending_license = VDeviceMismatch
   \<and> validate example_runtime (\<lambda>n. 500) (request_of ''dev-A'') (store_of pending_license) =
       (Response 500 (error_body ''Validation failed''), store_of pending_license)"
  by (simp add: validate_def validate_body_def validate_check_def deviceIdHash_def
      hashDeviceId_def example_defs store_defs)

section \<open>The assertion of a repeated activation\<close>

text \<open>
  C10: the assertion signed for a repeated activation by the bound device has the same
  fields as the one signed for the first activation. At the example license the first
  assertion has the property \<open>location\<close> and the second has not.
\<close>

theorem reactivation_assertion_omits_location:
  "fst (activate example_runtime (\<lambda>n. 500) (request_of ''dev-A'') (store_of pending_license)) =
     Response 200 (signed_body example_runtime
        (new_licenseResponse (\<lambda>n. 500) pending_license ''sha256:dev-A''))
   \<and> fst (activate example_runtime (\<lambda>n. 600) (request_of ''dev-A'')
        (snd (activate example_runtime (\<lambda>n. 500) (request_of ''dev-A'')
           (store_of pending_license)))) =
     Response 200 (signed_body example_runtime
        (existing_licenseResponse
           (pending_license\<lparr>device_id_hash := Some ''sha256:dev-A'', status := ''active'',
              activated_at := Some 500, last_validated_at := Some 500,
              updated_at := Some 500\<rparr>) ''sha256:dev-A''))
   \<and> map fst (new_licenseResponse (\<lambda>n. 500) pending_license ''sha256:dev-A'') =
       [''licenseKey'', ''deviceId'', ''kioskName'', ''location'', ''activatedAt'',
        ''expiresAt'', ''lastValidated'', ''graceExpiresAt'']
   \<and> map fst (existing_licenseResponse
           (pending_license\<lparr>device_id_hash := Some ''sha256:dev-A'', status := ''active'',
              activated_at := Some 500, last_validated_at := Some 500,
              updated_at := Some 500\<rparr>) ''sha256:dev-A'') =
       [''licenseKey'', ''deviceId'', ''kioskName'', ''activatedAt'',
        ''expiresAt'', ''lastValidated'', ''graceExpiresAt'']"
  by (simp add: activate_def activate_found_def hashDeviceId_def new_licenseResponse_def
      existing_licenseResponse_def example_defs store_defs)

end
